theory Spec2Isabelle
  imports Main
begin

section \<open>The element tree of the data-analyzer front end\<close>

text \<open>
  The two source files, \<^verbatim>\<open>src/app/layout.tsx\<close> and \<^verbatim>\<open>src/app/page.tsx\<close>, build React
  element trees from JSX literals. A JSX element \<^verbatim>\<open><t a="v">...</t>\<close> is a tag, its props
  in the order they are written, and its children; JSX text between tags is a text node
  (JSX drops the leading and trailing blank lines and indentation of a multi-line text,
  so the paragraph of the Home view holds its sentence and nothing more).
\<close>

datatype ReactNode =
    Element string "(string \<times> string) list" "ReactNode list"
  | Text string

subsection \<open>Reading a tree\<close>

fun tag :: "ReactNode \<Rightarrow> string option" where
  "tag (Element t ps cs) = Some t"
| "tag (Text s) = None"

fun props :: "ReactNode \<Rightarrow> (string \<times> string) list" where
  "props (Element t ps cs) = ps"
| "props (Text s) = []"

fun child_nodes :: "ReactNode \<Rightarrow> ReactNode list" where
  "child_nodes (Element t ps cs) = cs"
| "child_nodes (Text s) = []"

definition prop_value :: "string \<Rightarrow> ReactNode \<Rightarrow> string option" where
  "prop_value k n = map_of (props n) k"

text \<open>All elements of a tree with one of the given tags, the root included, in document order.\<close>

fun elements_by_tag :: "string list \<Rightarrow> ReactNode \<Rightarrow> ReactNode list" where
  "elements_by_tag ts (Element t ps cs) =
     (if t \<in> set ts then [Element t ps cs] else []) @ concat (map (elements_by_tag ts) cs)"
| "elements_by_tag ts (Text s) = []"

text \<open>All text nodes of a tree, in document order, and their concatenation.\<close>

fun texts :: "ReactNode \<Rightarrow> string list" where
  "texts (Element t ps cs) = concat (map texts cs)"
| "texts (Text s) = [s]"

definition text_content :: "ReactNode \<Rightarrow> string" where
  "text_content n = concat (texts n)"

text \<open>The body of a document: the first child of the root that is a \<^verbatim>\<open>body\<close> element,
  when the root is an \<^verbatim>\<open>html\<close> element.\<close>

definition document_body :: "ReactNode \<Rightarrow> ReactNode option" where
  "document_body d =
     (if tag d = Some ''html''
      then List.find (\<lambda>c. tag c = Some ''body'') (child_nodes d)
      else None)"

text \<open>The tokens of a class attribute: its maximal runs of characters other than the space.\<close>

fun tokens_acc :: "string \<Rightarrow> string \<Rightarrow> string list" where
  "tokens_acc acc [] = (if acc = [] then [] else [rev acc])"
| "tokens_acc acc (c # cs) =
     (if c = CHR '' ''
      then (if acc = [] then [] else [rev acc]) @ tokens_acc [] cs
      else tokens_acc (c # acc) cs)"

definition class_tokens :: "string \<Rightarrow> string list" where
  "class_tokens s = tokens_acc [] s"

section \<open>The font of the layout (layout.tsx, lines 1 to 9)\<close>

text \<open>
  \<^verbatim>\<open>import { Courier_Prime } from "next/font/google"\<close> binds one loader of the font
  library; the module calls it once, at its top level, with an options object, and keeps
  the result in \<^verbatim>\<open>courier\<close>. The library exports one loader for each family it
  knows, by name: the one that the module imports, or any other. The library itself is
  not part of the repository: it is a parameter of the model, and a loader may fail.
\<close>

datatype font_loader = Courier_Prime | Other_loader string

record font_options =
  weight :: "string list"
  variable :: string
  subsets :: "string list"

text \<open>What a loader returns: class names; \<^verbatim>\<open>courier.variable\<close> is the one the layout uses.\<close>

record NextFont =
  font_className :: string
  variable_class :: string

type_synonym 'e next_font_google = "font_loader \<Rightarrow> font_options \<Rightarrow> 'e + NextFont"

definition courier_options :: font_options where
  "courier_options =
     \<lparr>weight = [''400'', ''700''], variable = ''--font-courier'', subsets = [''latin'']\<rparr>"

text \<open>The font declarations of the two modules: layout.tsx has this one, page.tsx has none.\<close>

definition font_declarations :: "(font_loader \<times> font_options) list" where
  "font_declarations = [(Courier_Prime, courier_options)]"

definition courier :: "'e next_font_google \<Rightarrow> 'e + NextFont" where
  "courier google = google Courier_Prime courier_options"

section \<open>The metadata of the layout (layout.tsx, lines 11 to 14)\<close>

record Metadata =
  title :: string
  description :: string

definition metadata :: Metadata where
  "metadata =
     \<lparr>title = ''Data Analyzer'',
      description = ''Powerful data analysis and visualization dashboard''\<rparr>"

section \<open>The components\<close>

text \<open>\<^verbatim>\<open>RootLayout\<close> (layout.tsx, lines 16 to 30) reads the module's \<^verbatim>\<open>courier\<close> and its
  \<^verbatim>\<open>children\<close> prop; the template literal of the body's class is a concatenation.\<close>

definition RootLayout :: "NextFont \<Rightarrow> ReactNode \<Rightarrow> ReactNode" where
  "RootLayout c children =
     Element ''html'' [(''lang'', ''en'')]
       [Element ''body'' [(''className'', variable_class c @ '' antialiased'')]
          [children]]"

text \<open>\<^verbatim>\<open>Home\<close> (page.tsx, lines 1 to 12) takes no argument; its body is one JSX literal
  that reads no variable.\<close>

definition Home :: "unit \<Rightarrow> ReactNode" where
  "Home u =
     Element ''div'' [(''className'', ''min-h-screen p-8 font-mono'')]
       [Element ''main'' [(''className'', ''max-w-4xl mx-auto'')]
          [Element ''h1'' [(''className'', ''text-4xl font-bold mb-8'')]
             [Text ''Data Analyzer''],
           Element ''p'' [(''className'', ''text-lg text-foreground/80'')]
             [Text ''Welcome to your data analysis dashboard.'']]]"

text \<open>The default route: the framework renders the page of \<^verbatim>\<open>app/page.tsx\<close> as the
  \<^verbatim>\<open>children\<close> of the layout of \<^verbatim>\<open>app/layout.tsx\<close>.\<close>

definition default_route :: "NextFont \<Rightarrow> ReactNode" where
  "default_route c = RootLayout c (Home ())"

definition heading_tags :: "string list" where
  "heading_tags = [''h1'', ''h2'', ''h3'', ''h4'', ''h5'', ''h6'']"

section \<open>What lies outside the two source files\<close>

datatype font_category = Serif | Sans_Serif | Display | Handwriting | Monospace


text \<open>
  The opacity modifier of a colour utility of the style sheet framework: in
  \<^verbatim>\<open>text-foreground/80\<close> the decimal number after the slash is the opacity of the colour,
  in percent. A class without a slash, or with anything but digits after it, has none.
\<close>

definition digit_value :: "char \<Rightarrow> nat option" where
  "digit_value = map_of
     [(CHR ''0'', 0), (CHR ''1'', 1), (CHR ''2'', 2), (CHR ''3'', 3), (CHR ''4'', 4),
      (CHR ''5'', 5), (CHR ''6'', 6), (CHR ''7'', 7), (CHR ''8'', 8), (CHR ''9'', 9)]"

fun decimal_acc :: "nat \<Rightarrow> string \<Rightarrow> nat option" where
  "decimal_acc n [] = Some n"
| "decimal_acc n (c # cs) =
     (case digit_value c of None \<Rightarrow> None | Some d \<Rightarrow> decimal_acc (10 * n + d) cs)"

definition opacity_modifier :: "string \<Rightarrow> nat option" where
  "opacity_modifier u =
     (case dropWhile (\<lambda>c. c \<noteq> CHR ''/'') u of
        [] \<Rightarrow> None
      | s # ds \<Rightarrow> (if ds = [] then None else decimal_acc 0 ds))"

section \<open>Helper facts\<close>

lemma tokens_acc_no_space:
  "CHR '' '' \<notin> set v \<Longrightarrow> tokens_acc acc (v @ rest) = tokens_acc (rev v @ acc) rest"
  by (induction v arbitrary: acc) auto

lemma class_tokens_two:
  assumes "v \<noteq> []" and "CHR '' '' \<notin> set v"
  shows "class_tokens (v @ '' antialiased'') = [v, ''antialiased'']"
proof -
  have "tokens_acc [] (v @ '' antialiased'') = tokens_acc (rev v) '' antialiased''"
    using assms(2) tokens_acc_no_space [of v "[]" "'' antialiased''"] by simp
  also have "\<dots> = [v, ''antialiased'']"
    using assms(1) by simp
  finally show ?thesis
    by (simp add: class_tokens_def)
qed

lemma document_body_RootLayout:
  "document_body (RootLayout c children) =
     Some (Element ''body'' [(''className'', variable_class c @ '' antialiased'')] [children])"
  by (simp add: RootLayout_def document_body_def)

section \<open>The default route\<close>

text \<open>
  Claim C1. Whatever font object the loader returned, the document of the default route
  has exactly one heading element (\<^verbatim>\<open>h1\<close> to \<^verbatim>\<open>h6\<close>), and its text is "Data Analyzer";
  it has exactly one paragraph, and its text is "Welcome to your data analysis
  dashboard."; and these two strings, in this order, are all the text nodes of the
  document, so nothing else is injected.
\<close>

theorem default_route_fixed_text:
  "map text_content (elements_by_tag heading_tags (default_route c)) = [''Data Analyzer''] \<and>
   map text_content (elements_by_tag [''p''] (default_route c)) =
     [''Welcome to your data analysis dashboard.''] \<and>
   texts (default_route c) = [''Data Analyzer'', ''Welcome to your data analysis dashboard.'']"
proof -
  have doc: "default_route c =
      Element ''html'' [(''lang'', ''en'')]
        [Element ''body'' [(''className'', variable_class c @ '' antialiased'')] [Home ()]]"
    by (simp add: default_route_def RootLayout_def)
  have h: "elements_by_tag heading_tags (Home ()) =
      [Element ''h1'' [(''className'', ''text-4xl font-bold mb-8'')] [Text ''Data Analyzer'']]"
    by (simp add: Home_def heading_tags_def)
  have p: "elements_by_tag [''p''] (Home ()) =
      [Element ''p'' [(''className'', ''text-lg text-foreground/80'')]
         [Text ''Welcome to your data analysis dashboard.'']]"
    by (simp add: Home_def)
  have t: "texts (Home ()) = [''Data Analyzer'', ''Welcome to your data analysis dashboard.'']"
    by (simp add: Home_def)
  have outer: "''html'' \<notin> set heading_tags" "''body'' \<notin> set heading_tags"
    by (simp_all add: heading_tags_def)
  show ?thesis
    by (simp add: doc h p t outer text_content_def)
qed

section \<open>The metadata\<close>

text \<open>
  Claim C2, as the claim states the description (with a final period): refuted. The
  description of the layout's metadata is not the string that ends with a period.
\<close>

theorem metadata_description_no_period:
  "description metadata \<noteq> ''Powerful data analysis and visualization dashboard.''"
  by (simp add: metadata_def)

text \<open>
  Claim C2, amended. The metadata that the layout exports, which a route that exports
  none of its own inherits, has the title "Data Analyzer" and the description
  "Powerful data analysis and visualization dashboard", with no final period.
\<close>

theorem metadata_values:
  "title metadata = ''Data Analyzer'' \<and>
   description metadata = ''Powerful data analysis and visualization dashboard''"
  by (simp add: metadata_def)

section \<open>The layout keeps its nested content and declares the language\<close>


text \<open>
  Claim C3. For every nested content value, the document that the Root Layout renders
  has a body, and the children of that body are exactly the nested content, unchanged:
  nothing is added to it, removed from it or rewritten in it.
\<close>

theorem RootLayout_preserves_children:
  "map_option child_nodes (document_body (RootLayout c children)) = Some [children]"
  by (simp add: document_body_RootLayout)

text \<open>
  Claim C4. For every nested content value (every route), the root of the rendered
  document is an \<^verbatim>\<open>html\<close> element whose \<^verbatim>\<open>lang\<close> attribute is \<^verbatim>\<open>en\<close>.
\<close>

theorem RootLayout_lang_en:
  "tag (RootLayout c children) = Some ''html'' \<and>
   prop_value ''lang'' (RootLayout c children) = Some ''en''"
  by (simp add: RootLayout_def prop_value_def)

section \<open>The font\<close>



text \<open>
  Claim C7. In every document that the Root Layout renders, the only prop of the body is
  its class, and the class is the font's variable class followed by \<^verbatim>\<open>antialiased\<close>.
  When the variable class is one class name (not empty, no space in it), the class
  attribute has exactly these two tokens.
\<close>

theorem body_class:
  "map_option props (document_body (RootLayout c children)) =
     Some [(''className'', variable_class c @ '' antialiased'')] \<and>
   (variable_class c \<noteq> [] \<and> CHR '' '' \<notin> set (variable_class c) \<longrightarrow>
      class_tokens (variable_class c @ '' antialiased'') = [variable_class c, ''antialiased''])"
proof (intro conjI impI)
  show "map_option props (document_body (RootLayout c children)) =
      Some [(''className'', variable_class c @ '' antialiased'')]"
    by (simp add: document_body_RootLayout)
next
  assume "variable_class c \<noteq> [] \<and> CHR '' '' \<notin> set (variable_class c)"
  then show "class_tokens (variable_class c @ '' antialiased'') =
      [variable_class c, ''antialiased'']"
    by (simp add: class_tokens_two)
qed

theorem body_class_witness:
  "map_option props
     (document_body
        (RootLayout
           \<lparr>font_className = ''__className_1a2b3c'', variable_class = ''__variable_1a2b3c''\<rparr>
           (Home ()))) =
     Some [(''className'', ''__variable_1a2b3c antialiased'')] \<and>
   class_tokens ''__variable_1a2b3c antialiased'' = [''__variable_1a2b3c'', ''antialiased'']"
  using body_class
    [of "\<lparr>font_className = ''__className_1a2b3c'', variable_class = ''__variable_1a2b3c''\<rparr>"
        "Home ()"]
  by simp

text \<open>
  Claim C10. The layout calls the loader of the Courier Prime family with the variable
  name \<^verbatim>\<open>--font-courier\<close>: this is the one identifier under which the font is exposed.
\<close>

theorem font_variable_name:
  "courier google = google Courier_Prime courier_options \<and>
   variable courier_options = ''--font-courier'' \<and>
   map (\<lambda>(l, opts). (l, variable opts)) font_declarations = [(Courier_Prime, ''--font-courier'')]"
  by (simp add: courier_def courier_options_def font_declarations_def)

section \<open>The paragraph of the Home view\<close>

text \<open>
  Claim C9. The one paragraph of the Home view has the class
  \<^verbatim>\<open>text-lg text-foreground/80\<close>: two tokens, of which the second is the foreground colour
  with the opacity modifier 80, that is 80 percent; the first has no opacity modifier.
\<close>

theorem paragraph_opacity_80:
  "map (prop_value ''className'') (elements_by_tag [''p''] (Home ())) =
     [Some ''text-lg text-foreground/80''] \<and>
   class_tokens ''text-lg text-foreground/80'' = [''text-lg'', ''text-foreground/80''] \<and>
   map opacity_modifier [''text-lg'', ''text-foreground/80''] = [None, Some 80]"
  by (simp add: Home_def prop_value_def class_tokens_def opacity_modifier_def digit_value_def)

end
